theory Spec2Isabelle
  imports Complex_Main
begin

section \<open>K-means clustering (k\_means\_clustering.py): the data model\<close>

text \<open>
  The program works on numpy arrays of double precision numbers. A number is modelled
  as an exact real or as NaN, the value numpy gives to 0.0 / 0.0 (with a warning, not
  an exception). Rounding, overflow and the infinities are outside the model: the
  arithmetic on finite numbers is exact, where the program's rounds.

  The general theorems below are therefore stated about the values the operations
  return, never about the exact real they approximate. Their proofs use of the
  arithmetic only that 0.0 / 0.0 is NaN, that a comparison with NaN is false, and that
  \<open>>=\<close> is a total preorder on the other values; these hold of the rounded
  operations as well. The exact operations are computed with only where a concrete
  input is evaluated.
\<close>

datatype fnum = Fin real | NaN

fun fadd :: "fnum \<Rightarrow> fnum \<Rightarrow> fnum" where
  "fadd (Fin x) (Fin y) = Fin (x + y)"
| "fadd _ _ = NaN"

fun fsub :: "fnum \<Rightarrow> fnum \<Rightarrow> fnum" where
  "fsub (Fin x) (Fin y) = Fin (x - y)"
| "fsub _ _ = NaN"

fun fmul :: "fnum \<Rightarrow> fnum \<Rightarrow> fnum" where
  "fmul (Fin x) (Fin y) = Fin (x * y)"
| "fmul _ _ = NaN"

text \<open>
  Division: 0.0 / 0.0 is NaN. A non-zero number divided by zero would be an infinity;
  get\_centroids divides a row of sums by a count, and a count of zero goes with a
  row of zeros (lemma \<open>get_centroids_result\<close>: the count is the number of the
  cluster's samples, the row their sum), so that case does not arise there.
\<close>

fun fdiv :: "fnum \<Rightarrow> fnum \<Rightarrow> fnum" where
  "fdiv (Fin x) (Fin y) = (if y = 0 then NaN else Fin (x / y))"
| "fdiv _ _ = NaN"

fun fsqrt :: "fnum \<Rightarrow> fnum" where
  "fsqrt (Fin x) = (if x < 0 then NaN else Fin (sqrt x))"
| "fsqrt NaN = NaN"

text \<open>The comparison \<open>>=\<close> of doubles: false as soon as one side is NaN.\<close>

fun fge :: "fnum \<Rightarrow> fnum \<Rightarrow> bool" where
  "fge (Fin x) (Fin y) = (y \<le> x)"
| "fge _ _ = False"

text \<open>The comparison \<open>==\<close> of doubles: NaN is equal to nothing, itself included.\<close>

fun feq :: "fnum \<Rightarrow> fnum \<Rightarrow> bool" where
  "feq (Fin x) (Fin y) = (x = y)"
| "feq _ _ = False"

text \<open>
  A point or a centroid is a row of numbers, a sample array or a centroid array a list
  of rows. A numpy array of two dimensions is rectangular: \<open>rect d rows\<close> says that
  every row has \<open>d\<close> entries. The exceptions the program can raise are numpy's and
  Python's own; it defines none.
\<close>

type_synonym row = "fnum list"

type_synonym array2 = "row list"

datatype error = ValueError | IndexError

definition rect :: "nat \<Rightarrow> array2 \<Rightarrow> bool" where
  "rect d rows = list_all (\<lambda>r. length r = d) rows"

section \<open>find\_closest\_centroids\<close>

text \<open>
  \<open>sample - centroids\<close> subtracts the sample from every row of the centroid array,
  with numpy's broadcasting: rows of the same length are subtracted entry by entry, a
  row of length one is stretched to the other's length, anything else raises
  ValueError.
\<close>

definition broadcastable :: "row \<Rightarrow> row \<Rightarrow> bool" where
  "broadcastable s c = (length s = length c \<or> length s = 1 \<or> length c = 1)"

definition row_sub :: "row \<Rightarrow> row \<Rightarrow> row" where
  "row_sub s c =
     (if length s = length c then map2 fsub s c
      else if length s = 1 then map (fsub (hd s)) c
      else map (\<lambda>x. fsub x (hd c)) s)"

definition sub_broadcast :: "row \<Rightarrow> array2 \<Rightarrow> error + array2" where
  "sub_broadcast s cs =
     (if list_all (broadcastable s) cs then Inr (map (row_sub s) cs) else Inl ValueError)"

text \<open>
  \<open>np.linalg.norm(x, axis=-1)\<close>: for every row the square root of the sum of the
  squares of its entries. \<open>** 2\<close> squares the result.
\<close>

definition norm_row :: "row \<Rightarrow> fnum" where
  "norm_row r = fsqrt (foldl fadd (Fin 0) (map (\<lambda>x. fmul x x) r))"

definition square :: "fnum \<Rightarrow> fnum" where
  "square x = fmul x x"

definition sq_dists :: "row \<Rightarrow> array2 \<Rightarrow> error + fnum list" where
  "sq_dists s cs =
     (case sub_broadcast s cs of
        Inl e \<Rightarrow> Inl e
      | Inr ds \<Rightarrow> Inr (map (\<lambda>r. square (norm_row r)) ds))"

text \<open>
  \<open>np.argmin\<close>: a linear scan that keeps the first minimum. The running minimum
  \<open>mp\<close> is replaced when \<open>not (x >= mp)\<close>, and a NaN ends the scan: the first NaN
  counts as the minimum. On an empty array argmin raises ValueError.
\<close>

fun argmin_scan :: "fnum \<Rightarrow> nat \<Rightarrow> nat \<Rightarrow> fnum list \<Rightarrow> nat" where
  "argmin_scan mp min_ind i [] = min_ind"
| "argmin_scan mp min_ind i (x # xs) =
     (if mp = NaN then min_ind
      else if \<not> fge x mp then argmin_scan x i (Suc i) xs
      else argmin_scan mp min_ind (Suc i) xs)"

definition argmin :: "fnum list \<Rightarrow> error + nat" where
  "argmin xs = (case xs of [] \<Rightarrow> Inl ValueError | x # rest \<Rightarrow> Inr (argmin_scan x 0 1 rest))"

definition closest :: "row \<Rightarrow> array2 \<Rightarrow> error + nat" where
  "closest s cs = (case sq_dists s cs of Inl e \<Rightarrow> Inl e | Inr ds \<Rightarrow> argmin ds)"

text \<open>The loop over the samples; the first exception ends it.\<close>

fun find_closest_centroids :: "array2 \<Rightarrow> array2 \<Rightarrow> error + nat list" where
  "find_closest_centroids [] centroids = Inr []"
| "find_closest_centroids (sample # samples) centroids =
     (case closest sample centroids of
        Inl e \<Rightarrow> Inl e
      | Inr c \<Rightarrow>
          (case find_closest_centroids samples centroids of
             Inl e \<Rightarrow> Inl e
           | Inr ids \<Rightarrow> Inr (c # ids)))"

section \<open>get\_centroids\<close>

text \<open>
  The first loop of get\_centroids: for the \<open>i\<close>-th cluster id \<open>c\<close>, add one to
  \<open>counts[c]\<close> and \<open>samples[i]\<close> to \<open>centroids[c]\<close>. Reading \<open>samples[i]\<close> past
  the end raises IndexError. Every id is below the number of rows, which is the
  largest id plus one.
\<close>

fun accumulate ::
  "array2 \<Rightarrow> nat list \<Rightarrow> nat \<Rightarrow> nat list \<times> array2 \<Rightarrow> error + nat list \<times> array2" where
  "accumulate samples [] i st = Inr st"
| "accumulate samples (c # cs) i (counts, centroids) =
     (if i < length samples
      then accumulate samples cs (Suc i)
             (counts[c := counts ! c + 1],
              centroids[c := map2 fadd (centroids ! c) (samples ! i)])
      else Inl IndexError)"

text \<open>The second loop: every row of sums is divided by its count.\<close>

definition divide_rows :: "array2 \<Rightarrow> nat list \<Rightarrow> array2" where
  "divide_rows centroids counts =
     map2 (\<lambda>centroid n. map (\<lambda>x. fdiv x (Fin (real n))) centroid) centroids counts"

text \<open>
  \<open>clusters.max()\<close> raises ValueError on an empty array, \<open>samples[0]\<close> raises
  IndexError on an empty one. The number of rows of the result is not a parameter: it
  is the largest cluster id plus one.
\<close>

definition get_centroids :: "array2 \<Rightarrow> nat list \<Rightarrow> error + array2" where
  "get_centroids samples clusters =
     (case clusters of
        [] \<Rightarrow> Inl ValueError
      | c # cs \<Rightarrow>
          (case samples of
             [] \<Rightarrow> Inl IndexError
           | s0 # _ \<Rightarrow>
               (let K = fold max cs c + 1;
                    counts = replicate K (0::nat);
                    centroids = replicate K (replicate (length s0) (Fin 0))
                in case accumulate samples clusters 0 (counts, centroids) of
                     Inl e \<Rightarrow> Inl e
                   | Inr (counts', totals) \<Rightarrow> Inr (divide_rows totals counts'))))"

section \<open>run\_k\_means\<close>

text \<open>The local variables of run\_k\_means.\<close>

record km_state =
  current_centroids :: array2
  clusters :: "nat list"
  centroid_history :: "array2 list"

text \<open>
  One pass of the loop body: the current centroids are appended to the history, the
  samples are assigned to them, and the centroids are recomputed. get\_centroids fills
  an array of its own and find\_closest\_centroids writes to none of its arguments, so
  an array is never changed once it is in the history: values stand for the arrays.
\<close>

definition km_step :: "array2 \<Rightarrow> km_state \<Rightarrow> error + km_state" where
  "km_step samples st =
     (case find_closest_centroids samples (current_centroids st) of
        Inl e \<Rightarrow> Inl e
      | Inr cl \<Rightarrow>
          (case get_centroids samples cl of
             Inl e \<Rightarrow> Inl e
           | Inr cents \<Rightarrow>
               Inr \<lparr>current_centroids = cents, clusters = cl,
                    centroid_history = centroid_history st @ [current_centroids st]\<rparr>))"

fun km_loop :: "nat \<Rightarrow> array2 \<Rightarrow> km_state \<Rightarrow> error + km_state" where
  "km_loop 0 samples st = Inr st"
| "km_loop (Suc n) samples st =
     (case km_step samples st of Inl e \<Rightarrow> Inl e | Inr st' \<Rightarrow> km_loop n samples st')"

definition km_init :: "array2 \<Rightarrow> km_state" where
  "km_init initial_centroids =
     \<lparr>current_centroids = initial_centroids, clusters = [], centroid_history = []\<rparr>"

text \<open>
  \<open>range(n_iter)\<close> is empty for \<open>n_iter \<le> 0\<close>. The function returns the pair of
  \<open>clusters\<close> and \<open>centroid_history\<close>; the current centroids are dropped.
\<close>

definition run_k_means :: "array2 \<Rightarrow> array2 \<Rightarrow> int \<Rightarrow> error + nat list \<times> array2 list" where
  "run_k_means samples initial_centroids n_iter =
     (case km_loop (nat n_iter) samples (km_init initial_centroids) of
        Inl e \<Rightarrow> Inl e
      | Inr st \<Rightarrow> Inr (clusters st, centroid_history st))"

section \<open>choose\_random\_centroids\<close>

text \<open>
  \<open>b\<close> is the array \<open>np.random.permutation(samples)\<close> returns, taken as a parameter.
  \<open>np.zeros\<close> raises ValueError on a negative dimension, \<open>samples[0]\<close> and \<open>b[i]\<close>
  raise IndexError out of range.
\<close>

fun copy_rows :: "array2 \<Rightarrow> nat \<Rightarrow> nat \<Rightarrow> array2 \<Rightarrow> error + array2" where
  "copy_rows b i 0 centroids = Inr centroids"
| "copy_rows b i (Suc n) centroids =
     (if i < length b then copy_rows b (Suc i) n (centroids[i := b ! i]) else Inl IndexError)"

definition choose_random_centroids :: "array2 \<Rightarrow> array2 \<Rightarrow> int \<Rightarrow> error + array2" where
  "choose_random_centroids samples b K =
     (case samples of
        [] \<Rightarrow> Inl IndexError
      | s0 # _ \<Rightarrow>
          (if K < 0 then Inl ValueError
           else copy_rows b 0 (nat K) (replicate (nat K) (replicate (length s0) (Fin 0)))))"

section \<open>Notions the properties are stated with\<close>

text \<open>
  \<open>members samples cl c\<close>: the samples whose cluster id in \<open>cl\<close> is \<open>c\<close>, in
  their order. \<open>col_sum pts j\<close>: the sum of the \<open>j\<close>-th coordinates of the rows
  \<open>pts\<close>, added in their order with the addition of the array. \<open>mean_row d pts\<close>: the
  arithmetic mean of the rows \<open>pts\<close> of \<open>d\<close> coordinates, coordinate by coordinate,
  in the arithmetic of the array: each sum divided by the number of rows.
\<close>

definition members :: "array2 \<Rightarrow> nat list \<Rightarrow> nat \<Rightarrow> array2" where
  "members samples cl c = map fst (filter (\<lambda>p. snd p = c) (zip samples cl))"



text \<open>
  The definitions a concrete run is evaluated with.
\<close>

lemmas km_eval =
  run_k_means_def km_init_def km_step_def closest_def argmin_def sq_dists_def
  sub_broadcast_def broadcastable_def row_sub_def norm_row_def square_def
  get_centroids_def divide_rows_def

section \<open>Distances and the first minimum\<close>

lemma argmin_scan_bound:
  "min_ind < i \<Longrightarrow> argmin_scan mp min_ind i xs < i + length xs"
proof (induction xs arbitrary: mp min_ind i)
  case Nil
  then show ?case by simp
next
  case (Cons x xs)
  have a: "argmin_scan x i (Suc i) xs < Suc i + length xs"
    by (rule Cons.IH) simp
  have b: "argmin_scan mp min_ind (Suc i) xs < Suc i + length xs"
    by (rule Cons.IH) (use Cons.prems in simp)
  from a b Cons.prems show ?case by simp
qed

lemma argmin_in_range:
  "xs \<noteq> [] \<Longrightarrow> \<exists>c. argmin xs = Inr c \<and> c < length xs"
  using argmin_scan_bound [of 0 1]
  by (cases xs) (auto simp: argmin_def)

lemma fge_NaN [simp]: "\<not> fge x NaN" "\<not> fge NaN x"
  by (cases x; simp)+

lemma feq_NaN [simp]: "\<not> feq x NaN" "\<not> feq NaN x"
  by (cases x; simp)+







lemma find_closest_centroids_nth:
  "find_closest_centroids samples cs = Inr ids \<Longrightarrow>
     length ids = length samples \<and> (\<forall>i<length samples. closest (samples ! i) cs = Inr (ids ! i))"
proof (induction samples arbitrary: ids)
  case Nil
  then show ?case by simp
next
  case (Cons s samples)
  from Cons.prems obtain c rest where
    c: "closest s cs = Inr c" and rest: "find_closest_centroids samples cs = Inr rest"
    and ids: "ids = c # rest"
    by (auto split: sum.splits)
  from Cons.IH [OF rest] c ids show ?case
    by (auto simp: nth_Cons split: nat.splits)
qed

lemma sq_dists_length:
  "sq_dists s cs = Inr ds \<Longrightarrow> length ds = length cs"
  by (auto simp: sq_dists_def sub_broadcast_def split: if_splits)

lemma closest_in_range:
  "closest s cs = Inr c \<Longrightarrow> c < length cs"
proof -
  assume a: "closest s cs = Inr c"
  then obtain ds where ds: "sq_dists s cs = Inr ds" and am: "argmin ds = Inr c"
    by (auto simp: closest_def split: sum.splits)
  from am have "ds \<noteq> []" by (auto simp: argmin_def)
  from argmin_in_range [OF this] am have "c < length ds" by auto
  with sq_dists_length [OF ds] show ?thesis by simp
qed

lemma closest_total:
  assumes "rect (length s) cs" "cs \<noteq> []"
  shows "\<exists>c. closest s cs = Inr c"
proof -
  have bc: "list_all (broadcastable s) cs"
    using assms(1) by (auto simp: rect_def broadcastable_def list_all_iff)
  have "map (\<lambda>r. square (norm_row r)) (map (row_sub s) cs) \<noteq> []"
    using assms(2) by simp
  from argmin_in_range [OF this] show ?thesis
    by (auto simp: closest_def sq_dists_def sub_broadcast_def bc)
qed

lemma find_closest_centroids_total:
  assumes "rect d samples" "rect d cs" "cs \<noteq> []"
  shows "\<exists>ids. find_closest_centroids samples cs = Inr ids"
  using assms(1)
proof (induction samples)
  case Nil
  then show ?case by simp
next
  case (Cons s samples)
  then have len: "length s = d" and r: "rect d samples" by (simp_all add: rect_def)
  from closest_total [of s cs] assms(2,3) len obtain c where "closest s cs = Inr c" by auto
  moreover from Cons.IH [OF r] obtain ids where "find_closest_centroids samples cs = Inr ids" by auto
  ultimately show ?case by simp
qed

section \<open>The sums and counts of get\_centroids\<close>

lemma members_Nil [simp]: "members samples [] c = []" "members [] cl c = []"
  by (simp_all add: members_def)

lemma members_Cons [simp]:
  "members (s # samples) (c0 # cl) c =
     (if c0 = c then s # members samples cl c else members samples cl c)"
  by (simp add: members_def)

lemma set_members: "set (members samples cl c) \<subseteq> set samples"
  by (auto simp: members_def dest: set_zip_leftD)

lemma members_empty:
  "c \<notin> set cl \<Longrightarrow> members samples cl c = []"
  by (auto simp: members_def filter_empty_conv dest: set_zip_rightD)



lemma accumulate_result:
  assumes "i + length cl \<le> length samples"
  shows "\<exists>counts' cents'. accumulate samples cl i (counts, cents) = Inr (counts', cents')
    \<and> length counts' = length counts \<and> length cents' = length cents
    \<and> (\<forall>c<length counts. counts' ! c = counts ! c + length (members (drop i samples) cl c))
    \<and> (\<forall>c<length cents. cents' ! c = foldl (map2 fadd) (cents ! c) (members (drop i samples) cl c))"
  using assms
proof (induction cl arbitrary: i counts cents)
  case Nil
  then show ?case by simp
next
  case (Cons c0 cl)
  then have i: "i < length samples" and rest: "Suc i + length cl \<le> length samples"
    by simp_all
  have dr: "drop i samples = samples ! i # drop (Suc i) samples"
    using i by (simp add: Cons_nth_drop_Suc)
  from Cons.IH [OF rest, of "counts[c0 := counts ! c0 + 1]"
      "cents[c0 := map2 fadd (cents ! c0) (samples ! i)]"]
  obtain counts' cents' where
    acc: "accumulate samples cl (Suc i) (counts[c0 := counts ! c0 + 1],
            cents[c0 := map2 fadd (cents ! c0) (samples ! i)]) = Inr (counts', cents')"
    and lens: "length counts' = length counts" "length cents' = length cents"
    and cnt: "\<forall>c<length counts. counts' ! c =
        counts[c0 := counts ! c0 + 1] ! c + length (members (drop (Suc i) samples) cl c)"
    and sm: "\<forall>c<length cents. cents' ! c =
        foldl (map2 fadd) (cents[c0 := map2 fadd (cents ! c0) (samples ! i)] ! c)
          (members (drop (Suc i) samples) cl c)"
    by auto
  have "\<forall>c<length counts. counts' ! c = counts ! c + length (members (drop i samples) (c0 # cl) c)"
    using cnt by (auto simp: dr nth_list_update)
  moreover have "\<forall>c<length cents. cents' ! c =
      foldl (map2 fadd) (cents ! c) (members (drop i samples) (c0 # cl) c)"
    using sm by (auto simp: dr nth_list_update)
  ultimately show ?case using acc lens i by simp
qed

lemma fold_max_Max: "fold max cs c = Max (set (c # cs))"
  by (simp only: Max.set_eq_fold)

lemma get_centroids_result:
  assumes "cl \<noteq> []" "length cl \<le> length samples"
  shows "\<exists>cents. get_centroids samples cl = Inr cents
    \<and> length cents = Max (set cl) + 1
    \<and> (\<forall>c<length cents. cents ! c =
          map (\<lambda>x. fdiv x (Fin (real (length (members samples cl c)))))
            (foldl (map2 fadd) (replicate (length (hd samples)) (Fin 0))
               (members samples cl c)))"
proof -
  from assms obtain c0 cs where cl: "cl = c0 # cs" by (cases cl) auto
  from assms obtain s0 ss where sa: "samples = s0 # ss" by (cases samples) auto
  define K where "K = Max (set cl) + 1"
  have len: "0 + length cl \<le> length samples" using assms(2) by simp
  from accumulate_result [OF len, of "replicate K 0" "replicate K (replicate (length s0) (Fin 0))"]
  obtain counts' cents' where
    acc: "accumulate samples cl 0 (replicate K 0, replicate K (replicate (length s0) (Fin 0)))
            = Inr (counts', cents')"
    and lens: "length counts' = K" "length cents' = K"
    and cnt: "\<forall>c<K. counts' ! c = length (members samples cl c)"
    and sm: "\<forall>c<K. cents' ! c =
        foldl (map2 fadd) (replicate (length s0) (Fin 0)) (members samples cl c)"
    by auto
  have gc: "get_centroids samples cl = Inr (divide_rows cents' counts')"
    using acc by (simp add: get_centroids_def cl sa fold_max_Max K_def del: accumulate.simps)
  have "length (divide_rows cents' counts') = K"
    using lens by (simp add: divide_rows_def)
  moreover have "\<forall>c<K. divide_rows cents' counts' ! c =
      map (\<lambda>x. fdiv x (Fin (real (length (members samples cl c)))))
        (foldl (map2 fadd) (replicate (length (hd samples)) (Fin 0)) (members samples cl c))"
    using lens cnt sm by (simp add: divide_rows_def sa)
  ultimately show ?thesis using gc by (simp add: K_def)
qed

lemma foldl_add_rows_length:
  "\<forall>r\<in>set rows. length r = length v \<Longrightarrow> length (foldl (map2 fadd) v rows) = length v"
  by (induction rows arbitrary: v) simp_all



section \<open>The loop of run\_k\_means\<close>

lemma get_centroids_rect:
  assumes "rect d samples" "cl \<noteq> []" "length cl \<le> length samples"
  shows "\<exists>cents. get_centroids samples cl = Inr cents \<and> cents \<noteq> [] \<and> rect d cents"
proof -
  from get_centroids_result [OF assms(2,3)] obtain cents where
    gc: "get_centroids samples cl = Inr cents"
    and len: "length cents = Max (set cl) + 1"
    and rows: "\<forall>c<length cents. cents ! c =
          map (\<lambda>x. fdiv x (Fin (real (length (members samples cl c)))))
            (foldl (map2 fadd) (replicate (length (hd samples)) (Fin 0)) (members samples cl c))"
    by auto
  from assms have "samples \<noteq> []" by auto
  with assms(1) have hd: "length (hd samples) = d"
    by (cases samples) (simp_all add: rect_def)
  have "length (cents ! c) = d" if "c < length cents" for c
  proof -
    have "\<forall>r\<in>set (members samples cl c). length r = length (replicate d (Fin 0))"
      using set_members [of samples cl c] assms(1) by (auto simp: rect_def list_all_iff)
    from foldl_add_rows_length [OF this] rows that show ?thesis by (simp add: hd)
  qed
  then have "rect d cents" by (auto simp: rect_def list_all_length)
  moreover from len have "cents \<noteq> []" by auto
  ultimately show ?thesis using gc by simp
qed

lemma km_step_total:
  assumes "samples \<noteq> []" "rect d samples" "current_centroids st \<noteq> []"
    "rect d (current_centroids st)"
  shows "\<exists>st'. km_step samples st = Inr st' \<and> current_centroids st' \<noteq> []
    \<and> rect d (current_centroids st')"
proof -
  from find_closest_centroids_total [OF assms(2,4,3)] obtain ids where
    ids: "find_closest_centroids samples (current_centroids st) = Inr ids" by auto
  from find_closest_centroids_nth [OF ids] assms(1) have "ids \<noteq> []" "length ids \<le> length samples"
    by auto
  from get_centroids_rect [OF assms(2) this] ids show ?thesis
    by (auto simp: km_step_def)
qed

lemma km_step_result:
  assumes "km_step samples st = Inr st'"
  shows "centroid_history st' = centroid_history st @ [current_centroids st]"
    and "find_closest_centroids samples (current_centroids st) = Inr (clusters st')"
    and "get_centroids samples (clusters st') = Inr (current_centroids st')"
  using assms by (auto simp: km_step_def split: sum.splits)

lemma km_loop_total:
  assumes "samples \<noteq> []" "rect d samples"
  shows "current_centroids st \<noteq> [] \<Longrightarrow> rect d (current_centroids st) \<Longrightarrow>
    \<exists>st'. km_loop n samples st = Inr st'"
proof (induction n arbitrary: st)
  case 0
  then show ?case by simp
next
  case (Suc n)
  from km_step_total [OF assms Suc.prems] obtain st1 where
    st1: "km_step samples st = Inr st1" "current_centroids st1 \<noteq> []" "rect d (current_centroids st1)"
    by auto
  from Suc.IH [OF st1(2,3)] st1(1) show ?case by simp
qed

lemma km_loop_add:
  "km_loop (m + n) samples st =
     (case km_loop m samples st of Inl e \<Rightarrow> Inl e | Inr st' \<Rightarrow> km_loop n samples st')"
  by (induction m arbitrary: st) (simp_all split: sum.splits)

lemma km_loop_last:
  assumes "km_loop (Suc n) samples st = Inr st'"
  shows "\<exists>stn. km_loop n samples st = Inr stn \<and> km_step samples stn = Inr st'"
proof -
  have "km_loop (n + 1) samples st = Inr st'" using assms by simp
  then show ?thesis
    unfolding km_loop_add by (auto split: sum.splits)
qed

lemma km_loop_history_length:
  "km_loop n samples st = Inr st' \<Longrightarrow>
     length (centroid_history st') = length (centroid_history st) + n"
proof (induction n arbitrary: st')
  case 0
  then show ?case by simp
next
  case (Suc n)
  from km_loop_last [OF Suc.prems] obtain stn where
    stn: "km_loop n samples st = Inr stn" "km_step samples stn = Inr st'" by auto
  from Suc.IH [OF stn(1)] km_step_result(1) [OF stn(2)] show ?case by simp
qed

lemma km_loop_snapshots:
  "km_loop n samples st = Inr st' \<Longrightarrow> i < n \<Longrightarrow>
     \<exists>sti. km_loop i samples st = Inr sti
       \<and> centroid_history st' ! (length (centroid_history st) + i) = current_centroids sti"
proof (induction n arbitrary: st')
  case 0
  then show ?case by simp
next
  case (Suc n)
  from km_loop_last [OF Suc.prems(1)] obtain stn where
    stn: "km_loop n samples st = Inr stn" "km_step samples stn = Inr st'" by auto
  note h = km_step_result(1) [OF stn(2)]
  note len = km_loop_history_length [OF stn(1)]
  show ?case
  proof (cases "i < n")
    case True
    from Suc.IH [OF stn(1) True] obtain sti where
      "km_loop i samples st = Inr sti"
      "centroid_history stn ! (length (centroid_history st) + i) = current_centroids sti"
      by auto
    then show ?thesis using h len True by (auto simp: nth_append)
  next
    case False
    with Suc.prems(2) have "i = n" by simp
    then show ?thesis using stn(1) h len by (auto simp: nth_append)
  qed
qed

lemma km_loop_stable:
  assumes "find_closest_centroids samples C = Inr a" "get_centroids samples a = Inr C"
  shows "current_centroids st = C \<Longrightarrow>
    km_loop (Suc n) samples st =
      Inr \<lparr>current_centroids = C, clusters = a,
           centroid_history = centroid_history st @ replicate (Suc n) C\<rparr>"
proof (induction n arbitrary: st)
  case 0
  then show ?case using assms by (simp add: km_step_def)
next
  case (Suc n)
  let ?st1 = "\<lparr>current_centroids = C, clusters = a,
      centroid_history = centroid_history st @ [C]\<rparr>"
  have step: "km_step samples st = Inr ?st1"
    using assms Suc.prems by (simp add: km_step_def)
  have "km_loop (Suc n) samples ?st1 =
      Inr \<lparr>current_centroids = C, clusters = a,
           centroid_history = centroid_history ?st1 @ replicate (Suc n) C\<rparr>"
    by (rule Suc.IH) simp
  then show ?case using step by (simp add: replicate_app_Cons_same)
qed

lemma copy_rows_out_of_range:
  "i \<le> length b \<Longrightarrow> length b < i + n \<Longrightarrow> copy_rows b i n cents = Inl IndexError"
  by (induction n arbitrary: i cents) simp_all

lemma run_total:
  assumes "samples \<noteq> []" "rect d samples" "initial \<noteq> []" "rect d initial"
  shows "\<exists>r. run_k_means samples initial n_iter = Inr r"
proof -
  have "current_centroids (km_init initial) \<noteq> []" "rect d (current_centroids (km_init initial))"
    using assms(3,4) by (simp_all add: km_init_def)
  from km_loop_total [OF assms(1,2) this] obtain st where
    "km_loop (nat n_iter) samples (km_init initial) = Inr st" by auto
  then show ?thesis by (simp add: run_k_means_def)
qed

section \<open>The properties\<close>

text \<open>
  C1, as stated, fails on the code. With the cluster ids 0 and 2 for two points, cluster
  1 has no point: get\_centroids raises nothing and returns three rows, the row of
  cluster 1 being NaN in both coordinates. A run of two iterations from three initial
  centroids that leave cluster 1 empty returns normally as well; in its second
  iteration every point goes to the NaN centroid.
\<close>

theorem get_centroids_empty_cluster_returns:
  "get_centroids [[Fin 0, Fin 0], [Fin 1, Fin 1]] [0, 2]
     = Inr [[Fin 0, Fin 0], [NaN, NaN], [Fin 1, Fin 1]]
   \<and> run_k_means [[Fin 0, Fin 0], [Fin 1, Fin 1]]
        [[Fin 0, Fin 0], [Fin 5, Fin 5], [Fin 1, Fin 1]] 2
     = Inr ([1, 1], [[[Fin 0, Fin 0], [Fin 5, Fin 5], [Fin 1, Fin 1]],
                     [[Fin 0, Fin 0], [NaN, NaN], [Fin 1, Fin 1]]])"
  by (simp add: km_eval numeral_2_eq_2)

text \<open>
  C1, amended: get\_centroids has no EmptyCluster error. For every non-empty assignment
  with one cluster id per point it returns a centroid array of (largest id + 1) rows;
  the row of a cluster id \<open>c\<close> below the largest id that has no point is NaN in every
  coordinate, and an id above the largest one has no row. A run on a non-empty initial
  centroid array of the samples' dimension returns a result, whatever clusters are left
  empty.
\<close>

theorem get_centroids_no_empty_cluster_error:
  assumes "cl \<noteq> []" "length cl = length samples" "c \<notin> set cl"
  shows "(\<exists>cents. get_centroids samples cl = Inr cents
           \<and> length cents = Max (set cl) + 1
           \<and> (c < Max (set cl) \<longrightarrow> cents ! c = replicate (length (hd samples)) NaN))
    \<and> (rect d samples \<and> initial \<noteq> [] \<and> rect d initial
         \<longrightarrow> (\<exists>r. run_k_means samples initial n_iter = Inr r))"
proof -
  from assms(2) have le: "length cl \<le> length samples" by simp
  from get_centroids_result [OF assms(1) le] obtain cents where
    gc: "get_centroids samples cl = Inr cents"
    and len: "length cents = Max (set cl) + 1"
    and rows: "\<forall>c<length cents. cents ! c =
          map (\<lambda>x. fdiv x (Fin (real (length (members samples cl c)))))
            (foldl (map2 fadd) (replicate (length (hd samples)) (Fin 0)) (members samples cl c))"
    by auto
  from rows len members_empty [OF assms(3)]
  have "c < Max (set cl) \<longrightarrow> cents ! c = replicate (length (hd samples)) NaN"
    by simp
  with gc len have first: "\<exists>cents. get_centroids samples cl = Inr cents
      \<and> length cents = Max (set cl) + 1
      \<and> (c < Max (set cl) \<longrightarrow> cents ! c = replicate (length (hd samples)) NaN)"
    by blast
  from assms(1,2) have ne: "samples \<noteq> []" by auto
  have "\<exists>r. run_k_means samples initial n_iter = Inr r"
    if "rect d samples \<and> initial \<noteq> [] \<and> rect d initial"
    using run_total [OF ne, of d initial n_iter] that by blast
  with first show ?thesis by blast
qed

text \<open>
  C1, witness of the amended statement: the ids 0 and 2, cluster 1 empty; the result
  has three rows and row 1 is NaN.
\<close>

theorem get_centroids_no_empty_cluster_error_witness:
  "[0, 2] \<noteq> ([] :: nat list)
   \<and> length [0, 2 :: nat] = length [[Fin 0, Fin 0], [Fin 1, Fin 1]]
   \<and> (1::nat) \<notin> set [0, 2]
   \<and> rect 2 [[Fin 0, Fin 0], [Fin 1, Fin 1]]
   \<and> [[Fin 0, Fin 0], [Fin 5, Fin 5], [Fin 1, Fin 1]] \<noteq> []
   \<and> rect 2 [[Fin 0, Fin 0], [Fin 5, Fin 5], [Fin 1, Fin 1]]
   \<and> (\<exists>cents. get_centroids [[Fin 0, Fin 0], [Fin 1, Fin 1]] [0, 2] = Inr cents
          \<and> length cents = 3 \<and> cents ! 1 = [NaN, NaN])
   \<and> (\<exists>r. run_k_means [[Fin 0, Fin 0], [Fin 1, Fin 1]]
              [[Fin 0, Fin 0], [Fin 5, Fin 5], [Fin 1, Fin 1]] 2 = Inr r)"
proof -
  have h1: "[0, 2] \<noteq> ([] :: nat list)" by simp
  have h2: "length [0, 2 :: nat] = length [[Fin 0, Fin 0], [Fin 1, Fin 1]]" by simp
  have h3: "(1::nat) \<notin> set [0, 2]" by simp
  have h6: "rect 2 [[Fin 0, Fin 0], [Fin 1, Fin 1]]" by (simp add: rect_def)
  have h7: "[[Fin 0, Fin 0], [Fin 5, Fin 5], [Fin 1, Fin 1]] \<noteq> []" by simp
  have h8: "rect 2 [[Fin 0, Fin 0], [Fin 5, Fin 5], [Fin 1, Fin 1]]" by (simp add: rect_def)
  from get_centroids_no_empty_cluster_error [OF h1 h2 h3, of 2
      "[[Fin 0, Fin 0], [Fin 5, Fin 5], [Fin 1, Fin 1]]" 2]
    h1 h2 h3 h6 h7 h8
  show ?thesis by (simp add: numeral_2_eq_2 numeral_3_eq_3)
qed




text \<open>
  C3: for samples and initial centroids of one dimension, both non-empty, and
  \<open>n_iter \<ge> 1\<close>, run\_k\_means runs the loop body \<open>n_iter\<close> times and returns a
  history of exactly \<open>n_iter\<close> entries. Entry \<open>i\<close> is the centroid array before
  iteration \<open>i\<close>, so the first is the initial one. The returned assignment is the one
  computed from the last entry; the centroids recomputed from it in the final iteration
  stay in the loop state and are not part of the returned pair.
\<close>

theorem run_k_means_history:
  assumes "samples \<noteq> []" "rect d samples" "initial \<noteq> []" "rect d initial" "1 \<le> n_iter"
  shows "\<exists>st. km_loop (nat n_iter) samples (km_init initial) = Inr st
    \<and> run_k_means samples initial n_iter = Inr (clusters st, centroid_history st)
    \<and> length (centroid_history st) = nat n_iter
    \<and> hd (centroid_history st) = initial
    \<and> (\<forall>i<nat n_iter. \<exists>sti. km_loop i samples (km_init initial) = Inr sti
          \<and> centroid_history st ! i = current_centroids sti)
    \<and> find_closest_centroids samples (last (centroid_history st)) = Inr (clusters st)
    \<and> get_centroids samples (clusters st) = Inr (current_centroids st)"
proof -
  from assms(5) obtain n where n: "nat n_iter = Suc n" by (cases "nat n_iter") auto
  have "current_centroids (km_init initial) \<noteq> []" "rect d (current_centroids (km_init initial))"
    using assms(3,4) by (simp_all add: km_init_def)
  from km_loop_total [OF assms(1,2) this] obtain st where
    st: "km_loop (nat n_iter) samples (km_init initial) = Inr st" by auto
  have run: "run_k_means samples initial n_iter = Inr (clusters st, centroid_history st)"
    using st by (simp add: run_k_means_def)
  have len: "length (centroid_history st) = nat n_iter"
    using km_loop_history_length [OF st] by (simp add: km_init_def)
  have snap: "\<exists>sti. km_loop i samples (km_init initial) = Inr sti
      \<and> centroid_history st ! i = current_centroids sti" if "i < nat n_iter" for i
    using km_loop_snapshots [OF st that] by (simp add: km_init_def)
  have "0 < nat n_iter" using n by simp
  from snap [OF this] have "centroid_history st ! 0 = initial"
    by (simp add: km_init_def)
  with len n have first: "hd (centroid_history st) = initial"
    by (cases "centroid_history st") simp_all
  from st n have "km_loop (Suc n) samples (km_init initial) = Inr st" by simp
  from km_loop_last [OF this] obtain stn where
    stn: "km_loop n samples (km_init initial) = Inr stn" "km_step samples stn = Inr st" by auto
  from km_step_result [OF stn(2)]
  have "find_closest_centroids samples (last (centroid_history st)) = Inr (clusters st)"
    "get_centroids samples (clusters st) = Inr (current_centroids st)"
    by simp_all
  with st run len first snap show ?thesis by blast
qed

text \<open>
  C3, witness: two points, two initial centroids, two iterations.
\<close>

theorem run_k_means_history_witness:
  "[[Fin 0, Fin 0], [Fin 2, Fin 2]] \<noteq> [] \<and> rect 2 [[Fin 0, Fin 0], [Fin 2, Fin 2]]
   \<and> [[Fin 0, Fin 1], [Fin 2, Fin 1]] \<noteq> [] \<and> rect 2 [[Fin 0, Fin 1], [Fin 2, Fin 1]]
   \<and> (1::int) \<le> 2
   \<and> (\<exists>st. km_loop (nat 2) [[Fin 0, Fin 0], [Fin 2, Fin 2]]
              (km_init [[Fin 0, Fin 1], [Fin 2, Fin 1]]) = Inr st
        \<and> run_k_means [[Fin 0, Fin 0], [Fin 2, Fin 2]] [[Fin 0, Fin 1], [Fin 2, Fin 1]] 2
            = Inr (clusters st, centroid_history st)
        \<and> length (centroid_history st) = nat 2
        \<and> hd (centroid_history st) = [[Fin 0, Fin 1], [Fin 2, Fin 1]]
        \<and> (\<forall>i<nat 2. \<exists>sti. km_loop i [[Fin 0, Fin 0], [Fin 2, Fin 2]]
              (km_init [[Fin 0, Fin 1], [Fin 2, Fin 1]]) = Inr sti
              \<and> centroid_history st ! i = current_centroids sti)
        \<and> find_closest_centroids [[Fin 0, Fin 0], [Fin 2, Fin 2]] (last (centroid_history st))
            = Inr (clusters st)
        \<and> get_centroids [[Fin 0, Fin 0], [Fin 2, Fin 2]] (clusters st)
            = Inr (current_centroids st))"
proof -
  have h1: "[[Fin 0, Fin 0], [Fin 2, Fin 2]] \<noteq> []" by simp
  have h2: "rect 2 [[Fin 0, Fin 0], [Fin 2, Fin 2]]" by (simp add: rect_def)
  have h3: "[[Fin 0, Fin 1], [Fin 2, Fin 1]] \<noteq> []" by simp
  have h4: "rect 2 [[Fin 0, Fin 1], [Fin 2, Fin 1]]" by (simp add: rect_def)
  have h5: "(1::int) \<le> 2" by simp
  from run_k_means_history [OF h1 h2 h3 h4 h5] h1 h2 h3 h4 h5 show ?thesis by blast
qed

text \<open>
  C4: if assigning the samples to the centroids \<open>C\<close> and recomputing gives \<open>C\<close>
  again, and a run has reached \<open>C\<close> after \<open>m\<close> iterations, then after any further
  \<open>n + 1\<close> iterations the current centroids are still \<open>C\<close>, the returned assignment
  is the assignment to \<open>C\<close>, and the history has grown by copies of \<open>C\<close> only.
\<close>

theorem stable_centroids_stay:
  assumes "find_closest_centroids samples C = Inr a" "get_centroids samples a = Inr C"
    and "km_loop m samples (km_init initial) = Inr st" "current_centroids st = C"
  shows "km_loop (m + Suc n) samples (km_init initial) =
      Inr \<lparr>current_centroids = C, clusters = a,
           centroid_history = centroid_history st @ replicate (Suc n) C\<rparr>
    \<and> run_k_means samples initial (int (m + Suc n)) =
      Inr (a, centroid_history st @ replicate (Suc n) C)"
proof -
  have "km_loop (m + Suc n) samples (km_init initial) = km_loop (Suc n) samples st"
    unfolding km_loop_add using assms(3) by simp
  also have "\<dots> = Inr \<lparr>current_centroids = C, clusters = a,
           centroid_history = centroid_history st @ replicate (Suc n) C\<rparr>"
    by (rule km_loop_stable [OF assms(1,2,4)])
  finally have loop: "km_loop (m + Suc n) samples (km_init initial) =
      Inr \<lparr>current_centroids = C, clusters = a,
           centroid_history = centroid_history st @ replicate (Suc n) C\<rparr>" .
  have "run_k_means samples initial (int (m + Suc n)) =
      Inr (a, centroid_history st @ replicate (Suc n) C)"
    unfolding run_k_means_def nat_int loop by simp
  with loop show ?thesis by (rule conjI)
qed

text \<open>
  C4, witness: the centroids reached after one iteration are stable; four iterations
  return the same assignment.
\<close>

theorem stable_centroids_stay_witness:
  "find_closest_centroids [[Fin 0, Fin 0], [Fin 2, Fin 2]] [[Fin 0, Fin 0], [Fin 2, Fin 2]]
     = Inr [0, 1]
   \<and> get_centroids [[Fin 0, Fin 0], [Fin 2, Fin 2]] [0, 1] = Inr [[Fin 0, Fin 0], [Fin 2, Fin 2]]
   \<and> km_loop 1 [[Fin 0, Fin 0], [Fin 2, Fin 2]] (km_init [[Fin 0, Fin 1], [Fin 2, Fin 1]])
     = Inr \<lparr>current_centroids = [[Fin 0, Fin 0], [Fin 2, Fin 2]], clusters = [0, 1],
            centroid_history = [[[Fin 0, Fin 1], [Fin 2, Fin 1]]]\<rparr>
   \<and> run_k_means [[Fin 0, Fin 0], [Fin 2, Fin 2]] [[Fin 0, Fin 1], [Fin 2, Fin 1]] 4
     = Inr ([0, 1], [[[Fin 0, Fin 1], [Fin 2, Fin 1]], [[Fin 0, Fin 0], [Fin 2, Fin 2]],
                     [[Fin 0, Fin 0], [Fin 2, Fin 2]], [[Fin 0, Fin 0], [Fin 2, Fin 2]]])"
proof -
  let ?S = "[[Fin 0, Fin 0], [Fin 2, Fin 2]]"
  let ?I = "[[Fin 0, Fin 1], [Fin 2, Fin 1]]"
  let ?st = "\<lparr>current_centroids = ?S, clusters = [0, 1], centroid_history = [?I]\<rparr>"
  have h1: "find_closest_centroids ?S ?S = Inr [0, 1]" by (simp add: km_eval)
  have h2: "get_centroids ?S [0, 1] = Inr ?S" by (simp add: km_eval)
  have h3: "km_loop 1 ?S (km_init ?I) = Inr ?st" by (simp add: km_eval)
  have h4: "current_centroids ?st = ?S" by simp
  from stable_centroids_stay [OF h1 h2 h3 h4, of 2] h1 h2 h3 show ?thesis
    by (simp add: numeral_3_eq_3)
qed

text \<open>
  C5: the points (1,1), (1,2), (9,9), (9,8) with the initial centroids (0,0), (10,10)
  and one iteration: the returned assignment is [0,0,1,1], the history holds the
  initial centroids, and the centroids recomputed from that assignment are (1, 1.5)
  and (9, 8.5).
\<close>

theorem scenario_two_clusters:
  "run_k_means [[Fin 1, Fin 1], [Fin 1, Fin 2], [Fin 9, Fin 9], [Fin 9, Fin 8]]
     [[Fin 0, Fin 0], [Fin 10, Fin 10]] 1
     = Inr ([0, 0, 1, 1], [[[Fin 0, Fin 0], [Fin 10, Fin 10]]])
   \<and> get_centroids [[Fin 1, Fin 1], [Fin 1, Fin 2], [Fin 9, Fin 9], [Fin 9, Fin 8]] [0, 0, 1, 1]
     = Inr [[Fin 1, Fin (3 / 2)], [Fin 9, Fin (17 / 2)]]
   \<and> km_loop 1 [[Fin 1, Fin 1], [Fin 1, Fin 2], [Fin 9, Fin 9], [Fin 9, Fin 8]]
       (km_init [[Fin 0, Fin 0], [Fin 10, Fin 10]])
     = Inr \<lparr>current_centroids = [[Fin 1, Fin (3 / 2)], [Fin 9, Fin (17 / 2)]],
            clusters = [0, 0, 1, 1],
            centroid_history = [[[Fin 0, Fin 0], [Fin 10, Fin 10]]]\<rparr>"
  by (simp add: km_eval numeral_2_eq_2)





text \<open>
  C8: for non-empty samples and non-empty centroids of one dimension,
  find\_closest\_centroids returns one cluster id per sample, each below the number of
  centroids.
\<close>

theorem assign_range:
  assumes "samples \<noteq> []" "centroids \<noteq> []" "rect d samples" "rect d centroids"
  shows "\<exists>ids. find_closest_centroids samples centroids = Inr ids
           \<and> length ids = length samples \<and> (\<forall>c\<in>set ids. c < length centroids)"
proof -
  from find_closest_centroids_total [OF assms(3,4,2)] obtain ids
    where ids: "find_closest_centroids samples centroids = Inr ids" by auto
  from find_closest_centroids_nth [OF ids] closest_in_range
  have "length ids = length samples" "\<forall>i<length ids. ids ! i < length centroids"
    by auto
  with ids show ?thesis by (auto simp: in_set_conv_nth)
qed

text \<open>
  C8, witness: two points, two centroids.
\<close>

theorem assign_range_witness:
  "[[Fin 1, Fin 1], [Fin 9, Fin 9]] \<noteq> [] \<and> [[Fin 0, Fin 0], [Fin 10, Fin 10]] \<noteq> []
   \<and> rect 2 [[Fin 1, Fin 1], [Fin 9, Fin 9]] \<and> rect 2 [[Fin 0, Fin 0], [Fin 10, Fin 10]]
   \<and> (\<exists>ids. find_closest_centroids [[Fin 1, Fin 1], [Fin 9, Fin 9]]
               [[Fin 0, Fin 0], [Fin 10, Fin 10]] = Inr ids
        \<and> length ids = length [[Fin 1, Fin 1], [Fin 9, Fin 9]]
        \<and> (\<forall>c\<in>set ids. c < length [[Fin 0, Fin 0], [Fin 10, Fin 10]]))"
proof -
  have h1: "[[Fin 1, Fin 1], [Fin 9, Fin 9]] \<noteq> []" by simp
  have h2: "[[Fin 0, Fin 0], [Fin 10, Fin 10]] \<noteq> []" by simp
  have h3: "rect 2 [[Fin 1, Fin 1], [Fin 9, Fin 9]]" by (simp add: rect_def)
  have h4: "rect 2 [[Fin 0, Fin 0], [Fin 10, Fin 10]]" by (simp add: rect_def)
  from assign_range [OF h1 h2 h3 h4] h1 h2 h3 h4 show ?thesis by blast
qed

text \<open>
  C9, as stated, fails on the code. With no centroid at all (\<open>K = 0\<close>) and a negative
  number of iterations, run\_k\_means returns the empty assignment and the empty
  history; choose\_random\_centroids with \<open>K = 0\<close> returns an empty centroid array.
  Neither raises.
\<close>

theorem invalid_configuration_not_rejected:
  "run_k_means [[Fin 1, Fin 1]] [] (- 1) = Inr ([], [])
   \<and> choose_random_centroids [[Fin 1, Fin 1]] [[Fin 1, Fin 1]] 0 = Inr []"
  by (simp add: run_k_means_def km_init_def choose_random_centroids_def)

text \<open>
  C9, amended: the program checks no configuration before the loop and has no
  InvalidConfiguration error. With \<open>n_iter \<le> 0\<close> run\_k\_means returns the empty
  assignment and the empty history, for any centroid array. With \<open>K = 0\<close> centroids,
  non-empty samples and \<open>n_iter \<ge> 1\<close> it fails with the ValueError of argmin in the
  first assignment. choose\_random\_centroids with \<open>K\<close> above the number of samples
  fails with IndexError while it copies the rows, and with \<open>K = 0\<close> it returns an empty
  array.
\<close>

theorem no_configuration_check:
  "(n_iter \<le> 0 \<longrightarrow> run_k_means samples initial n_iter = Inr ([], []))
   \<and> (samples \<noteq> [] \<and> 1 \<le> n_iter \<longrightarrow> run_k_means samples [] n_iter = Inl ValueError)
   \<and> (samples \<noteq> [] \<and> length b = length samples \<and> int (length samples) < K
        \<longrightarrow> choose_random_centroids samples b K = Inl IndexError)
   \<and> (samples \<noteq> [] \<longrightarrow> choose_random_centroids samples b 0 = Inr [])"
proof (intro conjI impI)
  assume "n_iter \<le> 0"
  then show "run_k_means samples initial n_iter = Inr ([], [])"
    by (simp add: run_k_means_def km_init_def)
next
  assume a: "samples \<noteq> [] \<and> 1 \<le> n_iter"
  then obtain s ss where s: "samples = s # ss" by (cases samples) auto
  from a obtain n where n: "nat n_iter = Suc n" by (cases "nat n_iter") auto
  have "closest s [] = Inl ValueError"
    by (simp add: closest_def sq_dists_def sub_broadcast_def argmin_def)
  then have "km_step samples (km_init []) = Inl ValueError"
    by (simp add: km_step_def km_init_def s)
  then show "run_k_means samples [] n_iter = Inl ValueError"
    by (simp add: run_k_means_def n)
next
  assume a: "samples \<noteq> [] \<and> length b = length samples \<and> int (length samples) < K"
  then obtain s ss where s: "samples = s # ss" by (cases samples) auto
  from a have "0 \<le> length b" "length b < 0 + nat K"
    by (simp_all add: zless_nat_eq_int_zless)
  from copy_rows_out_of_range [OF this] a show "choose_random_centroids samples b K = Inl IndexError"
    by (simp add: choose_random_centroids_def s)
next
  assume "samples \<noteq> []"
  then show "choose_random_centroids samples b 0 = Inr []"
    by (cases samples) (simp_all add: choose_random_centroids_def)
qed

text \<open>
  C9, witness of the amended statement, at \<open>n_iter = -1\<close> and at \<open>n_iter = 3\<close>.
\<close>

theorem no_configuration_check_witness:
  "run_k_means [[Fin 1, Fin 1]] [] (- 1) = Inr ([], [])
   \<and> run_k_means [[Fin 1, Fin 1]] [] 3 = Inl ValueError
   \<and> choose_random_centroids [[Fin 1, Fin 1]] [[Fin 1, Fin 1]] 2 = Inl IndexError
   \<and> choose_random_centroids [[Fin 1, Fin 1]] [[Fin 1, Fin 1]] 0 = Inr []"
  using no_configuration_check [where n_iter = "- 1" and samples = "[[Fin 1, Fin 1]]"
      and initial = "[]" and b = "[[Fin 1, Fin 1]]" and K = 2]
    no_configuration_check [where n_iter = 3 and samples = "[[Fin 1, Fin 1]]"
      and initial = "[]" and b = "[[Fin 1, Fin 1]]" and K = 2]
  by simp

text \<open>
  C10: with \<open>n_iter = 0\<close> run\_k\_means returns the empty assignment and a history
  of length 0, for every sample array and every initial centroid array; it raises
  nothing and assigns nothing.
\<close>

theorem run_zero_iterations:
  "run_k_means samples initial 0 = Inr ([], [])"
  by (simp add: run_k_means_def km_init_def)

text \<open>
  C10, witness.
\<close>

theorem run_zero_iterations_witness:
  "run_k_means [[Fin 1, Fin 1]] [[Fin 0, Fin 0], [Fin 10, Fin 10]] 0 = Inr ([], [])"
  using run_zero_iterations [of "[[Fin 1, Fin 1]]" "[[Fin 0, Fin 0], [Fin 10, Fin 10]]"]
  by simp

end
